theory Spec2Isabelle
  imports Complex_Main "HOL-Library.AList"
begin

section \<open>Values, documents and identifiers\<close>

text \<open>
  A Python float is an IEEE double: a finite number, one of the two infinities, or
  not-a-number. Finite doubles are modelled by the real number they denote.
\<close>

datatype pyfloat = Fin real | PosInf | NegInf | NaN

text \<open>The comparison \<^verbatim>\<open>x >= 0\<close> behind pydantic's \<^verbatim>\<open>Field(..., ge=0)\<close>.\<close>

fun float_ge0 :: "pyfloat \<Rightarrow> bool" where
  "float_ge0 (Fin r) = (0 \<le> r)"
| "float_ge0 PosInf = True"
| "float_ge0 NegInf = False"
| "float_ge0 NaN = False"

text \<open>
  \<^verbatim>\<open>bson.ObjectId\<close>: twelve bytes, kept here as their canonical text, 24 lower-case
  hexadecimal digits. \<^verbatim>\<open>str(oid)\<close> is that text.
\<close>

datatype object_id = ObjectId string

fun str_oid :: "object_id \<Rightarrow> string" where
  "str_oid (ObjectId h) = h"

definition is_hex_char :: "char \<Rightarrow> bool" where
  "is_hex_char c = (c \<in> set ''0123456789abcdefABCDEF'')"

definition hex_lower :: "char \<Rightarrow> char" where
  "hex_lower c = (case map_of (zip ''ABCDEF'' ''abcdef'') c of Some l \<Rightarrow> l | None \<Rightarrow> c)"

text \<open>\<^verbatim>\<open>ObjectId.is_valid(s)\<close> for a \<^verbatim>\<open>str\<close>: exactly 24 hexadecimal digits.\<close>

definition ObjectId_is_valid :: "string \<Rightarrow> bool" where
  "ObjectId_is_valid s = (length s = 24 \<and> list_all is_hex_char s)"

text \<open>\<^verbatim>\<open>ObjectId(s)\<close> for a valid \<^verbatim>\<open>s\<close>: the digits are read case-insensitively.\<close>

definition ObjectId_of_str :: "string \<Rightarrow> object_id" where
  "ObjectId_of_str s = ObjectId (map hex_lower s)"

text \<open>
  The values a document can hold, as pymongo hands them to Python. A Python
  \<^verbatim>\<open>dict\<close> keeps its keys in insertion order, so a document is an association list.
\<close>

datatype val =
    VNone
  | VBool bool
  | VInt int
  | VFloat pyfloat
  | VStr string
  | VOid object_id
  | VDatetime int
  | VList "val list"
  | VDict "(string \<times> val) list"

type_synonym doc = "(string \<times> val) list"

text \<open>\<^verbatim>\<open>d.get(k)\<close> is \<open>None\<close> for a missing key; \<^verbatim>\<open>d[k] = v\<close> overwrites in place or appends.\<close>

definition dict_get :: "doc \<Rightarrow> string \<Rightarrow> val option" where
  "dict_get d k = map_of d k"

definition dict_set :: "doc \<Rightarrow> string \<Rightarrow> val \<Rightarrow> doc" where
  "dict_set d k v = AList.update k v d"

definition dict_del :: "doc \<Rightarrow> string \<Rightarrow> doc" where
  "dict_del d k = AList.delete k d"

text \<open>Python truthiness, as \<^verbatim>\<open>if x:\<close> and \<^verbatim>\<open>x and y\<close> test it.\<close>

fun truthy :: "val \<Rightarrow> bool" where
  "truthy VNone = False"
| "truthy (VBool b) = b"
| "truthy (VInt i) = (i \<noteq> 0)"
| "truthy (VFloat f) = (f \<noteq> Fin 0)"
| "truthy (VStr s) = (s \<noteq> [])"
| "truthy (VOid i) = True"
| "truthy (VDatetime t) = True"
| "truthy (VList xs) = (xs \<noteq> [])"
| "truthy (VDict kvs) = (kvs \<noteq> [])"

text \<open>
  What the handlers raise. \<^verbatim>\<open>HTTPException(status_code, detail)\<close> is the only error
  they raise on purpose; the others are the exceptions of pydantic and of Python
  itself, which no handler catches.
\<close>

datatype error =
    HTTPException nat string
  | ValidationError
  | KeyError string
  | TypeError
  | ValueError

text \<open>
  Three behaviours of the platform are left open and taken as parameters: the text
  \<^verbatim>\<open>str(v)\<close> of a value that is neither a string nor an \<^verbatim>\<open>ObjectId\<close> (number
  formatting, container display), \<^verbatim>\<open>float(v)\<close> of an integer or a string (rounding,
  parsing), and the order in which the store returns documents sorted by a field,
  descending.
\<close>

record runtime =
  str_other :: "val \<Rightarrow> string"
  float_conv :: "val \<Rightarrow> error + pyfloat"
  sorted_desc :: "string \<Rightarrow> (string \<times> val) list list \<Rightarrow> (string \<times> val) list list"

definition py_str :: "runtime \<Rightarrow> val \<Rightarrow> string" where
  "py_str R v = (case v of VStr s \<Rightarrow> s | VOid i \<Rightarrow> str_oid i | _ \<Rightarrow> str_other R v)"

definition py_float :: "runtime \<Rightarrow> val \<Rightarrow> error + pyfloat" where
  "py_float R v =
     (case v of
        VFloat f \<Rightarrow> Inr f
      | VBool b \<Rightarrow> Inr (Fin (if b then 1 else 0))
      | VInt i \<Rightarrow> float_conv R v
      | VStr s \<Rightarrow> float_conv R v
      | _ \<Rightarrow> Inl TypeError)"

section \<open>The document store\<close>

text \<open>
  \<^verbatim>\<open>db[name]\<close> is the collection of that name, a sequence of documents in insertion
  order (a collection never written to is empty). \<open>next_oid\<close> is the supply the
  store draws generated identifiers from.
\<close>

record store =
  colls :: "string \<Rightarrow> doc list"
  next_oid :: nat

fun hex_digits :: "nat \<Rightarrow> nat \<Rightarrow> string" where
  "hex_digits 0 n = []"
| "hex_digits (Suc k) n = hex_digits k (n div 16) @ [''0123456789abcdef'' ! (n mod 16)]"

definition fresh_oid :: "store \<Rightarrow> object_id" where
  "fresh_oid db = ObjectId (hex_digits 24 (next_oid db))"

text \<open>
  \<^verbatim>\<open>collection.find_one({k: v})\<close>: the first document whose field \<open>k\<close> equals \<open>v\<close>.
  The fields queried here are \<^verbatim>\<open>_id\<close>, never an array, and \<^verbatim>\<open>slug\<close>, declared
  \<^verbatim>\<open>str\<close> by the schema; on those the store's equality match is equality of values.
\<close>

definition find_one :: "doc list \<Rightarrow> string \<Rightarrow> val \<Rightarrow> doc option" where
  "find_one c k v = find (\<lambda>d. dict_get d k = Some v) c"

text \<open>
  \<^verbatim>\<open>collection.update_one({k: v}, {"$set": {sk: sv}})\<close>: the first matching document
  gets field \<open>sk\<close> set; nothing happens when none matches.
\<close>

fun update_one :: "doc list \<Rightarrow> string \<Rightarrow> val \<Rightarrow> string \<Rightarrow> val \<Rightarrow> doc list" where
  "update_one [] k v sk sv = []"
| "update_one (d # ds) k v sk sv =
     (if dict_get d k = Some v then dict_set d sk sv # ds
      else d # update_one ds k v sk sv)"

text \<open>
  Modelled from the spec: \<^verbatim>\<open>create_document\<close> of \<^verbatim>\<open>database.py\<close>, which is not among
  the sources. The spec's gateway has \<^verbatim>\<open>insert(collection, document) -> generatedId\<close>:
  the document is stored in the named collection under a generated identifier, and
  that identifier comes back as text (the handlers pass it on as a \<^verbatim>\<open>str\<close>). A
  pydantic model is handed over as its \<^verbatim>\<open>model_dump()\<close>.
\<close>

definition create_document :: "store \<Rightarrow> string \<Rightarrow> doc \<Rightarrow> string \<times> store" where
  "create_document db name d =
     (let i = fresh_oid db in
      (str_oid i,
       db\<lparr>colls := (colls db)(name := colls db name @ [(''_id'', VOid i) # d]),
          next_oid := Suc (next_oid db)\<rparr>))"

section \<open>Schemas\<close>

text \<open>
  \<^verbatim>\<open>Offer(buyer_id=..., listing_id=..., offer_price=...)\<close> of \<^verbatim>\<open>schemas.py\<close>, returning
  the dump of the validated model: \<^verbatim>\<open>offer_price\<close> has \<^verbatim>\<open>ge=0\<close>, the other fields
  take their defaults.
\<close>

definition Offer :: "string \<Rightarrow> string \<Rightarrow> pyfloat \<Rightarrow> error + doc" where
  "Offer buyer listing offer_price =
     (if float_ge0 offer_price then
        Inr [(''buyer_id'', VStr buyer),
             (''listing_id'', VStr listing),
             (''offer_price'', VFloat offer_price),
             (''currency'', VStr ''USD''),
             (''status'', VStr ''pending''),
             (''created_at'', VNone),
             (''updated_at'', VNone)]
      else Inl ValidationError)"

text \<open>
  \<^verbatim>\<open>Listing(seller_id=..., product_id=..., price=..., listing_type=...)\<close>: \<^verbatim>\<open>price\<close> has
  \<^verbatim>\<open>ge=0\<close> and \<^verbatim>\<open>listing_type\<close> is a \<^verbatim>\<open>Literal\<close>; currency and status take their
  defaults.
\<close>

definition listing_types :: "string list" where
  "listing_types = [''fixed_price'', ''auction'', ''make_offer'']"

definition Listing :: "string \<Rightarrow> string \<Rightarrow> pyfloat \<Rightarrow> string \<Rightarrow> error + doc" where
  "Listing seller product_id price listing_type =
     (if float_ge0 price \<and> listing_type \<in> set listing_types then
        Inr [(''seller_id'', VStr seller),
             (''product_id'', VStr product_id),
             (''price'', VFloat price),
             (''listing_type'', VStr listing_type),
             (''currency'', VStr ''USD''),
             (''status'', VStr ''active''),
             (''created_at'', VNone),
             (''updated_at'', VNone)]
      else Inl ValidationError)"

text \<open>
  \<^verbatim>\<open>Order(buyer_id=..., listing_id=..., amount=..., currency=..., payment_method=...,
  shipping_option=...)\<close>. The currency is whatever the listing document held, so it is
  validated here: a \<^verbatim>\<open>str\<close> of length 3. \<^verbatim>\<open>amount\<close> has \<^verbatim>\<open>ge=0\<close>,
  \<^verbatim>\<open>shipping_option\<close> is a \<^verbatim>\<open>Literal\<close>; status and escrow status take their defaults.
\<close>

definition shipping_options :: "string list" where
  "shipping_options = [''standard'', ''express'', ''store_pickup'', ''dropship'']"

definition Order ::
  "string \<Rightarrow> string \<Rightarrow> pyfloat \<Rightarrow> val \<Rightarrow> (string \<times> string) list \<Rightarrow> string \<Rightarrow> error + doc" where
  "Order buyer listing amount currency payment_method shipping_option =
     (case currency of
        VStr cur \<Rightarrow>
          if float_ge0 amount \<and> length cur = 3 \<and> shipping_option \<in> set shipping_options then
            Inr [(''buyer_id'', VStr buyer),
                 (''listing_id'', VStr listing),
                 (''amount'', VFloat amount),
                 (''currency'', VStr cur),
                 (''payment_method'', VDict (map (\<lambda>(k, v). (k, VStr v)) payment_method)),
                 (''shipping_option'', VStr shipping_option),
                 (''status'', VStr ''created''),
                 (''escrow_status'', VStr ''held''),
                 (''created_at'', VNone),
                 (''updated_at'', VNone)]
          else Inl ValidationError
      | _ \<Rightarrow> Inl ValidationError)"

text \<open>
  \<^verbatim>\<open>Product\<close> and its parts, as FastAPI hands them to the handler: already validated
  against \<^verbatim>\<open>schemas.py\<close>. URLs are kept as their text, timestamps as seconds.
\<close>

record Dimensions =
  dim_length :: int
  dim_width :: int
  dim_height :: int

record SizeVariant =
  sv_size :: string
  sv_sku :: string
  sv_price :: pyfloat
  sv_currency :: string
  sv_inventory_quantity :: int

record Product =
  p_title :: string
  p_slug :: string
  p_brand :: string
  p_model :: string
  p_release_year :: int
  p_condition :: string
  p_size_variants :: "SizeVariant list"
  p_images :: "string list"
  p_gallery_video :: "string option"
  p_description :: string
  p_materials :: "string option"
  p_colorway :: "string option"
  p_tags :: "string list"
  p_authenticity_certificate :: bool
  p_seller_id :: string
  p_shipping_weight_grams :: int
  p_dimensions_mm :: Dimensions
  p_created_at :: "int option"
  p_updated_at :: "int option"

definition opt_val :: "('a \<Rightarrow> val) \<Rightarrow> 'a option \<Rightarrow> val" where
  "opt_val f x = (case x of None \<Rightarrow> VNone | Some y \<Rightarrow> f y)"

definition Dimensions_dump :: "Dimensions \<Rightarrow> doc" where
  "Dimensions_dump d =
     [(''length'', VInt (dim_length d)),
      (''width'', VInt (dim_width d)),
      (''height'', VInt (dim_height d))]"

definition SizeVariant_dump :: "SizeVariant \<Rightarrow> doc" where
  "SizeVariant_dump v =
     [(''size'', VStr (sv_size v)),
      (''sku'', VStr (sv_sku v)),
      (''price'', VFloat (sv_price v)),
      (''currency'', VStr (sv_currency v)),
      (''inventory_quantity'', VInt (sv_inventory_quantity v))]"

text \<open>\<^verbatim>\<open>payload.product.model_dump()\<close>: the fields in declaration order.\<close>

definition Product_dump :: "Product \<Rightarrow> doc" where
  "Product_dump p =
     [(''title'', VStr (p_title p)),
      (''slug'', VStr (p_slug p)),
      (''brand'', VStr (p_brand p)),
      (''model'', VStr (p_model p)),
      (''release_year'', VInt (p_release_year p)),
      (''condition'', VStr (p_condition p)),
      (''size_variants'', VList (map (\<lambda>v. VDict (SizeVariant_dump v)) (p_size_variants p))),
      (''images'', VList (map VStr (p_images p))),
      (''gallery_video'', opt_val VStr (p_gallery_video p)),
      (''description'', VStr (p_description p)),
      (''materials'', opt_val VStr (p_materials p)),
      (''colorway'', opt_val VStr (p_colorway p)),
      (''tags'', VList (map VStr (p_tags p))),
      (''authenticity_certificate'', VBool (p_authenticity_certificate p)),
      (''seller_id'', VStr (p_seller_id p)),
      (''shipping_weight_grams'', VInt (p_shipping_weight_grams p)),
      (''dimensions_mm'', VDict (Dimensions_dump (p_dimensions_mm p))),
      (''created_at'', opt_val VDatetime (p_created_at p)),
      (''updated_at'', opt_val VDatetime (p_updated_at p))]"

section \<open>Handlers\<close>

text \<open>
  A handler takes the process-wide \<^verbatim>\<open>db\<close> handle (\<open>None\<close> when the database is not
  configured) and the parsed request body, and returns its response or the error it
  raised, together with the store as it leaves it.
\<close>

type_synonym 'a outcome = "(error + 'a) \<times> store option"

record OfferCreate =
  oc_buyer_id :: string
  oc_listing_id :: string
  oc_offer_price :: pyfloat

definition create_offer :: "store option \<Rightarrow> OfferCreate \<Rightarrow> doc outcome" where
  "create_offer dbo payload =
     (case dbo of
        None \<Rightarrow> (Inl (HTTPException 500 ''Database not configured''), None)
      | Some db \<Rightarrow>
          (let listing =
                 (if ObjectId_is_valid (oc_listing_id payload)
                  then find_one (colls db ''listing'') ''_id''
                         (VOid (ObjectId_of_str (oc_listing_id payload)))
                  else None)
           in case listing of
                None \<Rightarrow> (Inl (HTTPException 404 ''Listing not found''), Some db)
              | Some l \<Rightarrow>
                  if l = [] then (Inl (HTTPException 404 ''Listing not found''), Some db)
                  else
                    (case Offer (oc_buyer_id payload) (oc_listing_id payload)
                            (oc_offer_price payload) of
                       Inl e \<Rightarrow> (Inl e, Some db)
                     | Inr offer \<Rightarrow>
                         (let (offer_id, db') = create_document db ''offer'' offer
                          in (Inr [(''status'', VStr ''offer_created''),
                                   (''offer_id'', VStr offer_id)],
                              Some db')))))"

record ListingCreate =
  lc_seller_id :: string
  lc_product :: Product
  lc_price :: pyfloat
  lc_listing_type :: string

text \<open>
  \<^verbatim>\<open>create_listing\<close>: the product is looked up by slug only when the slug is truthy;
  a product found is reused, otherwise the dumped product is inserted. The listing is
  validated after that, when \<^verbatim>\<open>Listing(...)\<close> is built.
\<close>

definition create_listing :: "runtime \<Rightarrow> store option \<Rightarrow> ListingCreate \<Rightarrow> doc outcome" where
  "create_listing R dbo payload =
     (case dbo of
        None \<Rightarrow> (Inl (HTTPException 500 ''Database not configured''), None)
      | Some db \<Rightarrow>
          (let product_data = Product_dump (lc_product payload);
               existing =
                 (case dict_get product_data ''slug'' of
                    None \<Rightarrow> None
                  | Some s \<Rightarrow>
                      if truthy s then find_one (colls db ''product'') ''slug'' s else None);
               resolved =
                 (case existing of
                    None \<Rightarrow> Inr (create_document db ''product'' product_data)
                  | Some e \<Rightarrow>
                      if e = [] then Inr (create_document db ''product'' product_data)
                      else
                        (case dict_get e ''._id'' of
                           Some i \<Rightarrow> Inr (py_str R i, db)
                         | None \<Rightarrow>
                             (case dict_get e ''_id'' of
                                Some i \<Rightarrow> Inr (py_str R i, db)
                              | None \<Rightarrow> Inl (KeyError ''_id''))))
           in case resolved of
                Inl e \<Rightarrow> (Inl e, Some db)
              | Inr (product_id, db1) \<Rightarrow>
                  (case Listing (lc_seller_id payload) product_id (lc_price payload)
                          (lc_listing_type payload) of
                     Inl e \<Rightarrow> (Inl e, Some db1)
                   | Inr listing \<Rightarrow>
                       (let (listing_id, db2) = create_document db1 ''listing'' listing
                        in (Inr [(''status'', VStr ''listing_created''),
                                 (''listing_id'', VStr listing_id),
                                 (''product_id'', VStr product_id)],
                            Some db2)))))"

record CheckoutRequest =
  co_cart_id :: "string option"
  co_listing_id :: string
  co_buyer_id :: string
  co_payment_method :: "(string \<times> val) list"
  co_shipping_option :: string

text \<open>
  \<^verbatim>\<open>checkout\<close>. The arguments of \<^verbatim>\<open>Order(...)\<close> are evaluated in the order written, so
  a listing without \<^verbatim>\<open>_id\<close> or \<^verbatim>\<open>price\<close> raises \<^verbatim>\<open>KeyError\<close> before \<^verbatim>\<open>float\<close> or the
  schema can object. The listing is marked sold after the order is stored.
\<close>

definition checkout :: "runtime \<Rightarrow> store option \<Rightarrow> CheckoutRequest \<Rightarrow> doc outcome" where
  "checkout R dbo payload =
     (case dbo of
        None \<Rightarrow> (Inl (HTTPException 500 ''Database not configured''), None)
      | Some db \<Rightarrow>
          (let listing =
                 (if ObjectId_is_valid (co_listing_id payload)
                  then find_one (colls db ''listing'') ''_id''
                         (VOid (ObjectId_of_str (co_listing_id payload)))
                  else None)
           in case listing of
                None \<Rightarrow> (Inl (HTTPException 404 ''Listing not found''), Some db)
              | Some l \<Rightarrow>
                  if l = [] then (Inl (HTTPException 404 ''Listing not found''), Some db)
                  else if (case dict_get l ''status'' of
                             None \<Rightarrow> False
                           | Some s \<Rightarrow> truthy s \<and> s \<noteq> VStr ''active'')
                  then (Inl (HTTPException 400 ''Listing not available''), Some db)
                  else
                    (case dict_get l ''_id'' of
                       None \<Rightarrow> (Inl (KeyError ''_id''), Some db)
                     | Some lid \<Rightarrow>
                    (case dict_get l ''price'' of
                       None \<Rightarrow> (Inl (KeyError ''price''), Some db)
                     | Some p \<Rightarrow>
                    (case py_float R p of
                       Inl e \<Rightarrow> (Inl e, Some db)
                     | Inr amount \<Rightarrow>
                    (case Order (co_buyer_id payload) (py_str R lid) amount
                            (case dict_get l ''currency'' of
                               None \<Rightarrow> VStr ''USD''
                             | Some c \<Rightarrow> c)
                            (map (\<lambda>(k, v). (k, py_str R v)) (co_payment_method payload))
                            (co_shipping_option payload) of
                       Inl e \<Rightarrow> (Inl e, Some db)
                     | Inr order \<Rightarrow>
                         (let (order_id, db1) = create_document db ''order'' order;
                              db2 = db1\<lparr>colls := (colls db1)
                                      (''listing'' :=
                                         update_one (colls db1 ''listing'') ''_id'' lid
                                           ''status'' (VStr ''sold''))\<rparr>
                          in (Inr [(''status'', VStr ''order_confirmation''),
                                   (''order_id'', VStr order_id)],
                              Some db2))))))))"

section \<open>Sequences of requests\<close>

text \<open>
  The three endpoints that write to the store, and the store after a sequence of
  requests handled one after the other (no two at the same time).
\<close>

datatype request =
    CreateListing ListingCreate
  | CreateOffer OfferCreate
  | Checkout CheckoutRequest

fun handle :: "runtime \<Rightarrow> store option \<Rightarrow> request \<Rightarrow> store option" where
  "handle R dbo (CreateListing p) = snd (create_listing R dbo p)"
| "handle R dbo (CreateOffer p) = snd (create_offer dbo p)"
| "handle R dbo (Checkout p) = snd (checkout R dbo p)"

definition run :: "runtime \<Rightarrow> store option \<Rightarrow> request list \<Rightarrow> store option" where
  "run R dbo rs = foldl (handle R) dbo rs"

text \<open>The listing that identifier \<open>q\<close> resolves to exists and has status \<^verbatim>\<open>"sold"\<close>.\<close>

definition listing_sold :: "val \<Rightarrow> store option \<Rightarrow> bool" where
  "listing_sold q dbo =
     (case dbo of
        None \<Rightarrow> False
      | Some db \<Rightarrow>
          (case find_one (colls db ''listing'') ''_id'' q of
             None \<Rightarrow> False
           | Some l \<Rightarrow> dict_get l ''status'' = Some (VStr ''sold'')))"

section \<open>Serialising documents\<close>

text \<open>\<^verbatim>\<open>str(x) if isinstance(x, ObjectId) else x\<close>.\<close>

definition stringify_oid :: "val \<Rightarrow> val" where
  "stringify_oid x = (case x of VOid i \<Rightarrow> VStr (str_oid i) | _ \<Rightarrow> x)"

text \<open>
  One round of the loop in \<^verbatim>\<open>serialize_doc\<close>: an identifier becomes its text, a list
  has the identifiers among its elements replaced, a dictionary the identifiers among
  its values. Nothing below that level is looked at.
\<close>

definition serialize_field :: "val \<Rightarrow> val" where
  "serialize_field v =
     (case v of
        VOid i \<Rightarrow> VStr (str_oid i)
      | VList xs \<Rightarrow> VList (map stringify_oid xs)
      | VDict kvs \<Rightarrow> VDict (map (\<lambda>(k, x). (k, stringify_oid x)) kvs)
      | _ \<Rightarrow> v)"

text \<open>
  \<^verbatim>\<open>serialize_doc\<close>: an empty document is returned as it is; otherwise \<^verbatim>\<open>_id\<close> is
  popped and, unless it was missing or \<open>None\<close>, its text is stored under \<^verbatim>\<open>id\<close>; then
  every field goes through the loop. (The source rewrites a nested dictionary in
  place, which also changes the document it was given; only the returned document is
  modelled.)
\<close>

definition serialize_doc :: "runtime \<Rightarrow> doc \<Rightarrow> doc" where
  "serialize_doc R d =
     (if d = [] then d
      else
        (let d1 = dict_del d ''_id'';
             d2 = (case dict_get d ''_id'' of
                     None \<Rightarrow> d1
                   | Some VNone \<Rightarrow> d1
                   | Some i \<Rightarrow> dict_set d1 ''id'' (VStr (py_str R i)))
         in map (\<lambda>(k, v). (k, serialize_field v)) d2))"


section \<open>Listing products\<close>

subsection \<open>Regular expressions of the store\<close>

text \<open>
  The store evaluates \<^verbatim>\<open>$regex\<close> with PCRE. The fragment modelled: a pattern made of
  literal characters and \<^verbatim>\<open>.\<close> (any character but a line feed), with an optional
  \<^verbatim>\<open>^\<close> in front (start of the subject) and an optional \<^verbatim>\<open>$\<close> at the end (end of the
  subject, or just before a line feed that ends it). A pattern with any other
  metacharacter is outside the fragment. Option \<^verbatim>\<open>i\<close> compares letters without
  regard to case; only the ASCII letters are folded here.
\<close>

definition ascii_lower :: "char \<Rightarrow> char" where
  "ascii_lower c =
     (case map_of (zip ''ABCDEFGHIJKLMNOPQRSTUVWXYZ'' ''abcdefghijklmnopqrstuvwxyz'') c of
        Some l \<Rightarrow> l
      | None \<Rightarrow> c)"

definition line_feed :: char where
  "line_feed = CHR 0x0A"

definition regex_meta :: string where
  "regex_meta = CHR 0x5C # ''^$.|?*+()[]{}''"

datatype atom = Lit char | AnyChar

fun compile_atoms :: "string \<Rightarrow> atom list option" where
  "compile_atoms [] = Some []"
| "compile_atoms (c # cs) =
     (if c = CHR ''.'' then map_option ((#) AnyChar) (compile_atoms cs)
      else if c \<in> set regex_meta then None
      else map_option ((#) (Lit c)) (compile_atoms cs))"

text \<open>A compiled pattern: anchored at the start, the atoms, anchored at the end.\<close>

type_synonym regex = "bool \<times> atom list \<times> bool"

definition regex_compile :: "string \<Rightarrow> regex option" where
  "regex_compile p =
     (let (a, r1) = (case p of
                       [] \<Rightarrow> (False, p)
                     | c # cs \<Rightarrow> if c = CHR ''^'' then (True, cs) else (False, p));
          (e, r2) = (if r1 \<noteq> [] \<and> last r1 = CHR ''$'' then (True, butlast r1) else (False, r1))
      in map_option (\<lambda>ats. (a, ats, e)) (compile_atoms r2))"

definition atom_matches :: "bool \<Rightarrow> atom \<Rightarrow> char \<Rightarrow> bool" where
  "atom_matches ci a c =
     (case a of
        Lit x \<Rightarrow> if ci then ascii_lower x = ascii_lower c else x = c
      | AnyChar \<Rightarrow> c \<noteq> line_feed)"

fun match_here :: "bool \<Rightarrow> atom list \<Rightarrow> bool \<Rightarrow> string \<Rightarrow> bool" where
  "match_here ci [] e s = (if e then s = [] \<or> s = [line_feed] else True)"
| "match_here ci (a # as) e [] = False"
| "match_here ci (a # as) e (c # cs) = (atom_matches ci a c \<and> match_here ci as e cs)"

fun match_anywhere :: "bool \<Rightarrow> atom list \<Rightarrow> bool \<Rightarrow> string \<Rightarrow> bool" where
  "match_anywhere ci ats e [] = match_here ci ats e []"
| "match_anywhere ci ats e (c # cs) =
     (match_here ci ats e (c # cs) \<or> match_anywhere ci ats e cs)"

text \<open>
  Does the pattern, under the options, match somewhere in the subject? \<open>None\<close> when
  the pattern is outside the fragment.
\<close>

definition regex_search :: "string \<Rightarrow> string \<Rightarrow> string \<Rightarrow> bool option" where
  "regex_search p opts s =
     map_option
       (\<lambda>(a, ats, e).
          if a then match_here (CHR ''i'' \<in> set opts) ats e s
          else match_anywhere (CHR ''i'' \<in> set opts) ats e s)
       (regex_compile p)"

definition regex_test :: "string \<Rightarrow> string \<Rightarrow> string \<Rightarrow> bool" where
  "regex_test p opts s = (regex_search p opts s = Some True)"

subsection \<open>Queries\<close>

text \<open>
  The filters \<^verbatim>\<open>list_products\<close> builds: a field compared with a value, a field matched
  against a pattern, and \<^verbatim>\<open>$or\<close> over single-field alternatives.
\<close>

datatype cond = Regex string string | Equals val

datatype clause = Field string cond | Or "(string \<times> cond) list"

type_synonym query = "clause list"

primrec split_dots :: "string \<Rightarrow> string list" where
  "split_dots [] = [[]]"
| "split_dots (c # cs) =
     (if c = CHR ''.'' then [] # split_dots cs
      else (case split_dots cs of [] \<Rightarrow> [[c]] | w # ws \<Rightarrow> (c # w) # ws))"

text \<open>
  The values a dotted path reaches in a document: the path descends through embedded
  documents, and through the embedded documents of an array.
\<close>

fun path_values :: "string list \<Rightarrow> val \<Rightarrow> val list" where
  "path_values [] v = [v]"
| "path_values (k # ks) (VDict kvs) =
     (case map_of kvs k of None \<Rightarrow> [] | Some x \<Rightarrow> path_values ks x)"
| "path_values (k # ks) (VList xs) =
     concat (map (\<lambda>x. case x of
                         VDict kvs \<Rightarrow> (case map_of kvs k of None \<Rightarrow> [] | Some y \<Rightarrow> path_values ks y)
                       | _ \<Rightarrow> []) xs)"
| "path_values (k # ks) v = []"

text \<open>
  A value satisfies a condition when it does itself or, being an array, one of its
  elements does. Only strings match a pattern.
\<close>

definition cond_hit :: "cond \<Rightarrow> val \<Rightarrow> bool" where
  "cond_hit c v =
     (case c of
        Equals q \<Rightarrow> v = q \<or> (case v of VList xs \<Rightarrow> q \<in> set xs | _ \<Rightarrow> False)
      | Regex p opts \<Rightarrow>
          (case v of
             VStr s \<Rightarrow> regex_test p opts s
           | VList xs \<Rightarrow>
               list_ex (\<lambda>x. case x of VStr s \<Rightarrow> regex_test p opts s | _ \<Rightarrow> False) xs
           | _ \<Rightarrow> False))"

definition field_matches :: "string \<Rightarrow> cond \<Rightarrow> doc \<Rightarrow> bool" where
  "field_matches f c d = list_ex (cond_hit c) (path_values (split_dots f) (VDict d))"

definition clause_matches :: "clause \<Rightarrow> doc \<Rightarrow> bool" where
  "clause_matches cl d =
     (case cl of
        Field f c \<Rightarrow> field_matches f c d
      | Or alts \<Rightarrow> list_ex (\<lambda>(f, c). field_matches f c d) alts)"

definition doc_matches :: "query \<Rightarrow> doc \<Rightarrow> bool" where
  "doc_matches fq d = list_all (\<lambda>cl. clause_matches cl d) fq"

text \<open>Every pattern of the query is inside the modelled fragment.\<close>

definition cond_supported :: "cond \<Rightarrow> bool" where
  "cond_supported c = (case c of Regex p opts \<Rightarrow> regex_compile p \<noteq> None | Equals q \<Rightarrow> True)"

definition query_supported :: "query \<Rightarrow> bool" where
  "query_supported fq =
     list_all (\<lambda>cl. case cl of
                      Field f c \<Rightarrow> cond_supported c
                    | Or alts \<Rightarrow> list_all (\<lambda>(f, c). cond_supported c) alts) fq"

subsection \<open>The handler\<close>

text \<open>
  The query parameters as FastAPI hands them over: \<^verbatim>\<open>page\<close> is at least 1 and
  \<^verbatim>\<open>per_page\<close> between 1 and 100, checked before the handler runs.
\<close>

record ProductsQuery =
  pq_q :: "string option"
  pq_brand :: "string option"
  pq_size :: "string option"
  pq_condition :: "string option"
  pq_page :: nat
  pq_per_page :: nat

record ProductsPage =
  pp_total :: nat
  pp_page :: nat
  pp_per_page :: nat
  pp_items :: "doc list"

text \<open>\<^verbatim>\<open>filter_q\<close>, in the order its keys are set. Each parameter counts only when truthy.\<close>

definition when_given :: "string option \<Rightarrow> (string \<Rightarrow> query) \<Rightarrow> query" where
  "when_given x f = (case x of None \<Rightarrow> [] | Some s \<Rightarrow> if s = [] then [] else f s)"

definition products_filter :: "ProductsQuery \<Rightarrow> query" where
  "products_filter pq =
     when_given (pq_q pq)
       (\<lambda>q. [Or [(''title'', Regex q ''i''),
                 (''brand'', Regex q ''i''),
                 (''model'', Regex q ''i'')]]) @
     when_given (pq_brand pq)
       (\<lambda>brand. [Field ''brand'' (Regex (''^'' @ brand @ ''$'') ''i'')]) @
     when_given (pq_condition pq)
       (\<lambda>condition. [Field ''condition'' (Equals (VStr condition))]) @
     when_given (pq_size pq)
       (\<lambda>size. [Field ''size_variants.size'' (Equals (VStr size))])"

text \<open>
  \<^verbatim>\<open>list_products\<close>: the count of the matching products, and the requested page of
  them, sorted by \<^verbatim>\<open>created_at\<close> descending and serialised. The result is \<open>None\<close> when
  a pattern of the query is outside the modelled fragment.
\<close>

definition list_products ::
  "runtime \<Rightarrow> store option \<Rightarrow> ProductsQuery \<Rightarrow> (error + ProductsPage) option" where
  "list_products R dbo pq =
     (case dbo of
        None \<Rightarrow> Some (Inl (HTTPException 500 ''Database not configured''))
      | Some db \<Rightarrow>
          (let filter_q = products_filter pq in
           if query_supported filter_q then
             Some (Inr
               \<lparr>pp_total = length (filter (doc_matches filter_q) (colls db ''product'')),
                pp_page = pq_page pq,
                pp_per_page = pq_per_page pq,
                pp_items =
                  map (serialize_doc R)
                    (take (pq_per_page pq)
                       (drop ((pq_page pq - 1) * pq_per_page pq)
                          (sorted_desc R ''created_at''
                             (filter (doc_matches filter_q) (colls db ''product'')))))\<rparr>)
           else None))"

section \<open>Worked data\<close>

text \<open>
  Concrete inputs for the worked examples below. \<open>sample_runtime\<close> fixes the open
  behaviours; the examples do not depend on them, since every example converts
  strings, floats and identifiers only and sorts at most one document.
\<close>

definition sample_runtime :: runtime where
  "sample_runtime =
     \<lparr>str_other = (\<lambda>v. ''''), float_conv = (\<lambda>v. Inl ValueError), sorted_desc = (\<lambda>f ds. ds)\<rparr>"

text \<open>A store holding the given products and listings and nothing else.\<close>

definition store_of :: "doc list \<Rightarrow> doc list \<Rightarrow> store" where
  "store_of ps ls = \<lparr>colls = (\<lambda>n. [])(''product'' := ps, ''listing'' := ls), next_oid = 0\<rparr>"

definition sample_id :: string where
  "sample_id = ''64b7f0c2a1d3e4f5a6b7c8d9''"

text \<open>A listing document priced 120 EUR, with the given value in its status field.\<close>

definition sample_listing :: "val \<Rightarrow> doc" where
  "sample_listing st =
     [(''_id'', VOid (ObjectId ''64b7f0c2a1d3e4f5a6b7c8d9'')),
      (''seller_id'', VStr ''seller-1''),
      (''product_id'', VStr ''64b7f0c2a1d3e4f5a6b7c8d8''),
      (''price'', VFloat (Fin 120)),
      (''listing_type'', VStr ''fixed_price''),
      (''currency'', VStr ''EUR''),
      (''status'', st)]"

definition sample_offer :: OfferCreate where
  "sample_offer = \<lparr>oc_buyer_id = ''buyer-1'', oc_listing_id = sample_id, oc_offer_price = Fin 100\<rparr>"

definition sample_checkout :: "string \<Rightarrow> CheckoutRequest" where
  "sample_checkout ship =
     \<lparr>co_cart_id = None, co_listing_id = sample_id, co_buyer_id = ''buyer-1'',
      co_payment_method = [(''card'', VStr ''visa'')], co_shipping_option = ship\<rparr>"

text \<open>The store after \<open>sample_offer\<close> was accepted on the active sample listing.\<close>

definition offer_store :: store where
  "offer_store = (store_of [] [sample_listing (VStr ''active'')])
       \<lparr>colls := (colls (store_of [] [sample_listing (VStr ''active'')]))
          (''offer'' := [[(''_id'', VOid (ObjectId ''000000000000000000000000'')),
             (''buyer_id'', VStr ''buyer-1''),
             (''listing_id'', VStr sample_id),
             (''offer_price'', VFloat (Fin 100)),
             (''currency'', VStr ''USD''),
             (''status'', VStr ''pending''),
             (''created_at'', VNone),
             (''updated_at'', VNone)]]),
         next_oid := 1\<rparr>"

text \<open>
  A product payload with the given slug, the document a stored copy of it is, and a
  listing creation request for it with the given listing type.
\<close>

definition sample_product :: "string \<Rightarrow> Product" where
  "sample_product slug =
     \<lparr>p_title = ''Air Max 1'', p_slug = slug, p_brand = ''Nike'', p_model = ''Air Max'',
      p_release_year = 1987, p_condition = ''new'', p_size_variants = [], p_images = [],
      p_gallery_video = None, p_description = ''Classic runner'', p_materials = None,
      p_colorway = None, p_tags = [], p_authenticity_certificate = False,
      p_seller_id = ''seller-1'', p_shipping_weight_grams = 900,
      p_dimensions_mm = \<lparr>dim_length = 330, dim_width = 210, dim_height = 120\<rparr>,
      p_created_at = None, p_updated_at = None\<rparr>"

definition stored_product :: "string \<Rightarrow> doc" where
  "stored_product slug =
     (''_id'', VOid (ObjectId ''64b7f0c2a1d3e4f5a6b7c8d8'')) # Product_dump (sample_product slug)"

definition sample_create :: "string \<Rightarrow> string \<Rightarrow> ListingCreate" where
  "sample_create slug ty =
     \<lparr>lc_seller_id = ''seller-1'', lc_product = sample_product slug,
      lc_price = Fin 120, lc_listing_type = ty\<rparr>"


text \<open>A first page of products asked for with only the brand parameter given.\<close>

definition sample_query :: "string option \<Rightarrow> ProductsQuery" where
  "sample_query b =
     \<lparr>pq_q = None, pq_brand = b, pq_size = None, pq_condition = None,
      pq_page = 1, pq_per_page = 12\<rparr>"

section \<open>Lookup and update\<close>

lemma find_one_None: "find_one c k v = None \<longleftrightarrow> list_all (\<lambda>d. dict_get d k \<noteq> Some v) c"
  by (auto simp add: find_one_def find_None_iff list_all_iff)

lemma find_one_Some_get: "find_one c k v = Some l \<Longrightarrow> dict_get l k = Some v"
  by (auto simp: find_one_def find_Some_iff)

lemma find_one_append: "find_one c k v = Some l \<Longrightarrow> find_one (c @ c') k v = Some l"
  by (induction c) (auto simp: find_one_def)

lemma dict_get_set: "dict_get (dict_set d k v) k' = (if k' = k then Some v else dict_get d k')"
  by (simp add: dict_get_def dict_set_def update_conv')

lemma find_one_update_same:
  "find_one c k v = Some l \<Longrightarrow> sk \<noteq> k \<Longrightarrow>
   find_one (update_one c k v sk sv) k v = Some (dict_set l sk sv)"
  by (induction c) (auto simp: find_one_def dict_get_set)

lemma find_one_update_other:
  "sk \<noteq> k \<Longrightarrow> v \<noteq> q \<Longrightarrow> find_one (update_one c k v sk sv) k q = find_one c k q"
  by (induction c) (auto simp: find_one_def dict_get_set)

subsection \<open>Evaluating the worked data\<close>

lemma hex_digits_0: "hex_digits 24 0 = ''000000000000000000000000''"
  by code_simp

lemma hex_digits_1: "hex_digits 24 1 = ''000000000000000000000001''"
  by code_simp

lemma sample_id_valid: "ObjectId_is_valid sample_id"
  by (simp add: sample_id_def ObjectId_is_valid_def is_hex_char_def)

lemma sample_id_oid: "ObjectId_of_str sample_id = ObjectId ''64b7f0c2a1d3e4f5a6b7c8d9''"
  by (simp add: sample_id_def ObjectId_of_str_def hex_lower_def)

lemma sample_find:
  "find_one (colls (store_of ps [sample_listing st]) ''listing'') ''_id'' (VOid (ObjectId_of_str sample_id))
     = Some (sample_listing st)"
  by (simp add: store_of_def find_one_def sample_listing_def dict_get_def sample_id_oid)

lemmas sample_simps =
  store_of_def sample_listing_def sample_checkout_def sample_offer_def find_one_def
  dict_get_def sample_id_oid sample_id_valid create_document_def fresh_oid_def
  hex_digits_0 py_float_def py_str_def Let_def

lemma sample_offer_run:
  "create_offer (Some (store_of [] [sample_listing (VStr ''active'')])) sample_offer =
    (Inr [(''status'', VStr ''offer_created''), (''offer_id'', VStr ''000000000000000000000000'')],
     Some offer_store)"
  by (simp add: create_offer_def Offer_def offer_store_def sample_simps)

section \<open>Offers\<close>

text \<open>
  Claim C5. An offer whose \<^verbatim>\<open>listing_id\<close> is malformed, or is well formed while no
  document of the listing collection carries that identifier, is refused with
  \<^verbatim>\<open>HTTPException(404, "Listing not found")\<close>, and the store is left exactly as it
  was: no offer is recorded.
\<close>

theorem create_offer_not_found:
  assumes "\<not> ObjectId_is_valid (oc_listing_id payload) \<or>
           list_all (\<lambda>d. dict_get d ''_id'' \<noteq> Some (VOid (ObjectId_of_str (oc_listing_id payload))))
             (colls db ''listing'')"
  shows "create_offer (Some db) payload = (Inl (HTTPException 404 ''Listing not found''), Some db)"
  using assms by (auto simp: create_offer_def find_one_None[symmetric])

theorem create_offer_not_found_witness:
  "\<not> ObjectId_is_valid (oc_listing_id (sample_offer\<lparr>oc_listing_id := ''not-an-id''\<rparr>)) \<and>
   create_offer (Some (store_of [] [sample_listing (VStr ''active'')]))
       (sample_offer\<lparr>oc_listing_id := ''not-an-id''\<rparr>)
     = (Inl (HTTPException 404 ''Listing not found''),
        Some (store_of [] [sample_listing (VStr ''active'')])) \<and>
   list_all (\<lambda>d. dict_get d ''_id'' \<noteq> Some (VOid (ObjectId_of_str (oc_listing_id sample_offer))))
     (colls (store_of [] []) ''listing'') \<and>
   create_offer (Some (store_of [] [])) sample_offer
     = (Inl (HTTPException 404 ''Listing not found''), Some (store_of [] []))"
proof -
  have m: "\<not> ObjectId_is_valid (oc_listing_id (sample_offer\<lparr>oc_listing_id := ''not-an-id''\<rparr>))"
    by (simp add: ObjectId_is_valid_def)
  have h: "list_all (\<lambda>d. dict_get d ''_id'' \<noteq> Some (VOid (ObjectId_of_str (oc_listing_id sample_offer))))
     (colls (store_of [] []) ''listing'')"
    by (simp add: store_of_def)
  show ?thesis
    by (intro conjI m h create_offer_not_found[OF disjI1[OF m]] create_offer_not_found[OF disjI2[OF h]])
qed

text \<open>
  Claim C9. Whenever \<^verbatim>\<open>create_offer\<close> succeeds it has appended exactly one document to
  the offer collection, and that document has currency \<^verbatim>\<open>"USD"\<close> and status
  \<^verbatim>\<open>"pending"\<close>, whatever the listing it refers to holds.
\<close>

theorem create_offer_defaults:
  assumes "create_offer (Some db) payload = (Inr resp, dbo')"
  shows "\<exists>db' offer. dbo' = Some db' \<and> colls db' ''offer'' = colls db ''offer'' @ [offer] \<and>
                dict_get offer ''currency'' = Some (VStr ''USD'') \<and>
                dict_get offer ''status'' = Some (VStr ''pending'')"
  using assms
  by (auto simp: create_offer_def Offer_def create_document_def dict_get_def Let_def
           split: option.splits if_splits sum.splits)

theorem create_offer_defaults_witness:
  "dict_get (sample_listing (VStr ''active'')) ''currency'' = Some (VStr ''EUR'') \<and>
   create_offer (Some (store_of [] [sample_listing (VStr ''active'')])) sample_offer =
    (Inr [(''status'', VStr ''offer_created''), (''offer_id'', VStr ''000000000000000000000000'')],
     Some offer_store) \<and>
   (\<exists>db' offer. Some offer_store = Some db' \<and>
      colls db' ''offer'' = colls (store_of [] [sample_listing (VStr ''active'')]) ''offer'' @ [offer] \<and>
      dict_get offer ''currency'' = Some (VStr ''USD'') \<and>
      dict_get offer ''status'' = Some (VStr ''pending''))"
proof -
  have e: "dict_get (sample_listing (VStr ''active'')) ''currency'' = Some (VStr ''EUR'')"
    by (simp add: sample_listing_def dict_get_def)
  show ?thesis
    by (intro conjI e sample_offer_run create_offer_defaults[OF sample_offer_run])
qed

section \<open>Checkout\<close>

text \<open>
  Claim C2, as amended. When the \<^verbatim>\<open>listing_id\<close> resolves to a listing whose status
  field holds a truthy value other than \<^verbatim>\<open>"active"\<close>, checkout is refused with
  \<^verbatim>\<open>HTTPException(400, "Listing not available")\<close> and the store is left exactly as it
  was: no order is recorded and the listing is untouched.
\<close>

theorem checkout_unavailable:
  assumes "ObjectId_is_valid (co_listing_id payload)"
      and "find_one (colls db ''listing'') ''_id'' (VOid (ObjectId_of_str (co_listing_id payload))) = Some l"
      and "dict_get l ''status'' = Some s" "truthy s" "s \<noteq> VStr ''active''"
  shows "checkout R (Some db) payload = (Inl (HTTPException 400 ''Listing not available''), Some db)"
  using assms by (auto simp: checkout_def dict_get_def)

theorem checkout_unavailable_witness:
  "ObjectId_is_valid (co_listing_id (sample_checkout ''standard'')) \<and>
   find_one (colls (store_of [] [sample_listing (VStr ''sold'')]) ''listing'') ''_id''
      (VOid (ObjectId_of_str (co_listing_id (sample_checkout ''standard''))))
     = Some (sample_listing (VStr ''sold'')) \<and>
   dict_get (sample_listing (VStr ''sold'')) ''status'' = Some (VStr ''sold'') \<and>
   truthy (VStr ''sold'') \<and> VStr ''sold'' \<noteq> VStr ''active'' \<and>
   checkout sample_runtime (Some (store_of [] [sample_listing (VStr ''sold'')])) (sample_checkout ''standard'')
     = (Inl (HTTPException 400 ''Listing not available''), Some (store_of [] [sample_listing (VStr ''sold'')]))"
proof -
  have h1: "ObjectId_is_valid (co_listing_id (sample_checkout ''standard''))"
    by (simp add: sample_checkout_def sample_id_valid)
  have h2: "find_one (colls (store_of [] [sample_listing (VStr ''sold'')]) ''listing'') ''_id''
      (VOid (ObjectId_of_str (co_listing_id (sample_checkout ''standard''))))
     = Some (sample_listing (VStr ''sold''))"
    by (simp add: sample_checkout_def sample_find)
  have h3: "dict_get (sample_listing (VStr ''sold'')) ''status'' = Some (VStr ''sold'')"
    by (simp add: sample_listing_def dict_get_def)
  have h4: "truthy (VStr ''sold'')" by simp
  have h5: "VStr ''sold'' \<noteq> VStr ''active''" by simp
  show ?thesis
    by (intro conjI h1 h2 h3 h4 h5 checkout_unavailable[OF h1 h2 h3 h4 h5])
qed

text \<open>
  The claim as written fails on a status that is present but falsy: the listing below
  has the status \<^verbatim>\<open>""\<close>, which is not \<^verbatim>\<open>"active"\<close>, and checkout goes through.
\<close>

theorem checkout_empty_status_counterexample:
  "ObjectId_is_valid (co_listing_id (sample_checkout ''standard'')) \<and>
   find_one (colls (store_of [] [sample_listing (VStr '''')]) ''listing'') ''_id''
      (VOid (ObjectId_of_str (co_listing_id (sample_checkout ''standard''))))
     = Some (sample_listing (VStr '''')) \<and>
   dict_get (sample_listing (VStr '''')) ''status'' = Some (VStr '''') \<and>
   VStr '''' \<noteq> VStr ''active'' \<and>
   fst (checkout sample_runtime (Some (store_of [] [sample_listing (VStr '''')])) (sample_checkout ''standard''))
     = Inr [(''status'', VStr ''order_confirmation''), (''order_id'', VStr ''000000000000000000000000'')]"
  by (simp add: checkout_def Order_def shipping_options_def sample_simps)

text \<open>
  Claim C1, as amended. When the \<^verbatim>\<open>listing_id\<close> resolves to a listing whose status is
  \<^verbatim>\<open>"active"\<close> or absent, whose price converts to a float that is at least 0, whose
  currency is absent or a string of length 3, and the request's shipping option is one
  of the four the \<^verbatim>\<open>Order\<close> schema admits, then checkout succeeds, appends exactly one
  order whose amount is that price and whose currency is the listing's (\<^verbatim>\<open>"USD"\<close> when
  absent), with status \<^verbatim>\<open>"created"\<close> and escrow status \<^verbatim>\<open>"held"\<close>, and leaves the
  listing with status \<^verbatim>\<open>"sold"\<close>.
\<close>

theorem checkout_creates_order:
  assumes valid: "ObjectId_is_valid (co_listing_id payload)"
      and found: "find_one (colls db ''listing'') ''_id'' (VOid (ObjectId_of_str (co_listing_id payload))) = Some l"
      and status: "dict_get l ''status'' = Some (VStr ''active'') \<or> dict_get l ''status'' = None"
      and price: "dict_get l ''price'' = Some p" "py_float R p = Inr amount" "float_ge0 amount"
      and cur: "dict_get l ''currency'' = None \<and> cur = ''USD'' \<or> dict_get l ''currency'' = Some (VStr cur)" "length cur = 3"
      and ship: "co_shipping_option payload \<in> set shipping_options"
  shows "\<exists>resp db' order. checkout R (Some db) payload = (Inr resp, Some db') \<and>
         colls db' ''order'' = colls db ''order'' @ [order] \<and>
         dict_get order ''amount'' = Some (VFloat amount) \<and>
         dict_get order ''currency'' = Some (VStr cur) \<and>
         dict_get order ''status'' = Some (VStr ''created'') \<and>
         dict_get order ''escrow_status'' = Some (VStr ''held'') \<and>
         find_one (colls db' ''listing'') ''_id'' (VOid (ObjectId_of_str (co_listing_id payload)))
           = Some (dict_set l ''status'' (VStr ''sold''))"
proof -
  have id: "dict_get l ''_id'' = Some (VOid (ObjectId_of_str (co_listing_id payload)))"
    using found by (rule find_one_Some_get)
  then have ne: "l \<noteq> []" by (auto simp: dict_get_def)
  show ?thesis
    using valid found status price cur ship id ne
    by (auto simp: checkout_def Order_def create_document_def Let_def dict_get_def[of "_ # _"]
        find_one_update_same)
qed

theorem checkout_creates_order_witness:
  "ObjectId_is_valid (co_listing_id (sample_checkout ''standard'')) \<and>
   find_one (colls (store_of [] [sample_listing (VStr ''active'')]) ''listing'') ''_id''
      (VOid (ObjectId_of_str (co_listing_id (sample_checkout ''standard''))))
     = Some (sample_listing (VStr ''active'')) \<and>
   dict_get (sample_listing (VStr ''active'')) ''status'' = Some (VStr ''active'') \<and>
   dict_get (sample_listing (VStr ''active'')) ''price'' = Some (VFloat (Fin 120)) \<and>
   py_float sample_runtime (VFloat (Fin 120)) = Inr (Fin 120) \<and> float_ge0 (Fin 120) \<and>
   dict_get (sample_listing (VStr ''active'')) ''currency'' = Some (VStr ''EUR'') \<and>
   length ''EUR'' = 3 \<and>
   co_shipping_option (sample_checkout ''standard'') \<in> set shipping_options \<and>
   (\<exists>resp db' order.
      checkout sample_runtime (Some (store_of [] [sample_listing (VStr ''active'')]))
        (sample_checkout ''standard'') = (Inr resp, Some db') \<and>
      colls db' ''order'' = colls (store_of [] [sample_listing (VStr ''active'')]) ''order'' @ [order] \<and>
      dict_get order ''amount'' = Some (VFloat (Fin 120)) \<and>
      dict_get order ''currency'' = Some (VStr ''EUR'') \<and>
      dict_get order ''status'' = Some (VStr ''created'') \<and>
      dict_get order ''escrow_status'' = Some (VStr ''held'') \<and>
      find_one (colls db' ''listing'') ''_id''
        (VOid (ObjectId_of_str (co_listing_id (sample_checkout ''standard''))))
        = Some (dict_set (sample_listing (VStr ''active'')) ''status'' (VStr ''sold'')))"
proof -
  have h1: "ObjectId_is_valid (co_listing_id (sample_checkout ''standard''))"
    by (simp add: sample_checkout_def sample_id_valid)
  have h2: "find_one (colls (store_of [] [sample_listing (VStr ''active'')]) ''listing'') ''_id''
      (VOid (ObjectId_of_str (co_listing_id (sample_checkout ''standard''))))
     = Some (sample_listing (VStr ''active''))"
    by (simp add: sample_checkout_def sample_find)
  have h3: "dict_get (sample_listing (VStr ''active'')) ''status'' = Some (VStr ''active'')"
    by (simp add: sample_listing_def dict_get_def)
  have h4: "dict_get (sample_listing (VStr ''active'')) ''price'' = Some (VFloat (Fin 120))"
    by (simp add: sample_listing_def dict_get_def)
  have h5: "py_float sample_runtime (VFloat (Fin 120)) = Inr (Fin 120)"
    by (simp add: py_float_def)
  have h6: "float_ge0 (Fin 120)" by simp
  have h7: "dict_get (sample_listing (VStr ''active'')) ''currency'' = Some (VStr ''EUR'')"
    by (simp add: sample_listing_def dict_get_def)
  have h8: "length ''EUR'' = 3" by simp
  have h9: "co_shipping_option (sample_checkout ''standard'') \<in> set shipping_options"
    by (simp add: sample_checkout_def shipping_options_def)
  show ?thesis
    by (intro conjI h1 h2 h3 h4 h5 h6 h7 h8 h9
        checkout_creates_order[OF h1 h2 disjI1[OF h3] h4 h5 h6 disjI2[OF h7] h8 h9])
qed

text \<open>
  The claim as written fails on a request the handler accepts but the \<^verbatim>\<open>Order\<close> schema
  does not: on the active sample listing, a checkout with shipping option
  \<^verbatim>\<open>"teleport"\<close> raises a validation error, records no order and leaves the listing
  active.
\<close>

theorem checkout_bad_shipping_counterexample:
  "ObjectId_is_valid (co_listing_id (sample_checkout ''teleport'')) \<and>
   find_one (colls (store_of [] [sample_listing (VStr ''active'')]) ''listing'') ''_id''
      (VOid (ObjectId_of_str (co_listing_id (sample_checkout ''teleport''))))
     = Some (sample_listing (VStr ''active'')) \<and>
   dict_get (sample_listing (VStr ''active'')) ''status'' = Some (VStr ''active'') \<and>
   checkout sample_runtime (Some (store_of [] [sample_listing (VStr ''active'')])) (sample_checkout ''teleport'')
     = (Inl ValidationError, Some (store_of [] [sample_listing (VStr ''active'')]))"
  by (simp add: checkout_def Order_def shipping_options_def sample_simps)

section \<open>A listing is sold once\<close>

lemma create_document_colls:
  "colls (snd (create_document db name d)) n =
     (if n = name then colls db n @ [(''_id'', VOid (fresh_oid db)) # d] else colls db n)"
  by (simp add: create_document_def Let_def)

lemma sold_append:
  "listing_sold q (Some db) \<Longrightarrow> colls db' ''listing'' = colls db ''listing'' @ xs \<Longrightarrow>
   listing_sold q (Some db')"
  by (auto simp: listing_sold_def find_one_append split: option.splits)

lemma sold_update:
  "listing_sold q (Some db) \<Longrightarrow>
   colls db' ''listing'' = update_one (colls db ''listing'') ''_id'' v ''status'' (VStr ''sold'') \<Longrightarrow>
   listing_sold q (Some db')"
  by (cases "v = q")
     (auto simp: listing_sold_def find_one_update_same find_one_update_other dict_get_set
           split: option.splits)

lemma checkout_listing:
  "checkout R (Some db) p = (r, dbo') \<Longrightarrow>
   \<exists>db'. dbo' = Some db' \<and>
     (colls db' ''listing'' = colls db ''listing'' \<or>
      (\<exists>v. colls db' ''listing'' =
         update_one (colls db ''listing'') ''_id'' v ''status'' (VStr ''sold'')))"
  by (auto simp: checkout_def create_document_def Let_def
           split: option.splits if_splits sum.splits prod.splits)

lemma create_offer_listing:
  "create_offer (Some db) p = (r, dbo') \<Longrightarrow>
   \<exists>db'. dbo' = Some db' \<and> colls db' ''listing'' = colls db ''listing''"
  by (auto simp: create_offer_def create_document_def Let_def
           split: option.splits if_splits sum.splits prod.splits)

lemma create_listing_listing:
  "create_listing R (Some db) p = (r, dbo') \<Longrightarrow>
   \<exists>db' xs. dbo' = Some db' \<and> colls db' ''listing'' = colls db ''listing'' @ xs"
  by (auto simp: create_listing_def create_document_def Let_def
           split: option.splits if_splits sum.splits prod.splits)

lemma sold_handle: "listing_sold q dbo \<Longrightarrow> listing_sold q (handle R dbo r)"
proof (cases dbo)
  case None
  then show "listing_sold q dbo \<Longrightarrow> ?thesis" by (simp add: listing_sold_def)
next
  case (Some db)
  assume s: "listing_sold q dbo"
  show ?thesis
  proof (cases r)
    case (CreateListing p)
    obtain res dbo' where e: "create_listing R (Some db) p = (res, dbo')" by force
    from create_listing_listing[OF e] s Some CreateListing e show ?thesis
      by (auto intro: sold_append)
  next
    case (CreateOffer p)
    obtain res dbo' where e: "create_offer (Some db) p = (res, dbo')" by force
    from create_offer_listing[OF e] s Some CreateOffer e show ?thesis
      by (auto intro: sold_append[where xs="[]"])
  next
    case (Checkout p)
    obtain res dbo' where e: "checkout R (Some db) p = (res, dbo')" by force
    from checkout_listing[OF e] s Some Checkout e show ?thesis
      by (auto intro: sold_update sold_append[where xs="[]"])
  qed
qed

lemma sold_run: "listing_sold q dbo \<Longrightarrow> listing_sold q (run R dbo rs)"
  unfolding run_def by (induction rs arbitrary: dbo) (auto intro: sold_handle)

lemma checkout_success_sold:
  assumes "checkout R (Some db) p = (Inr resp, dbo')"
  shows "ObjectId_is_valid (co_listing_id p) \<and>
         listing_sold (VOid (ObjectId_of_str (co_listing_id p))) dbo'"
proof -
  let ?q = "VOid (ObjectId_of_str (co_listing_id p))"
  from assms have v: "ObjectId_is_valid (co_listing_id p)"
    by (auto simp: checkout_def split: if_splits)
  from assms v obtain l where f: "find_one (colls db ''listing'') ''_id'' ?q = Some l"
    by (auto simp: checkout_def split: option.splits)
  have id: "dict_get l ''_id'' = Some ?q" by (rule find_one_Some_get[OF f])
  from assms v f id have "listing_sold ?q dbo'"
    by (auto simp: checkout_def create_document_def Let_def listing_sold_def
        find_one_update_same dict_get_set
        split: option.splits if_splits sum.splits)
  with v show ?thesis by simp
qed

lemma checkout_status_guard:
  assumes "ObjectId_is_valid (co_listing_id payload)"
      and "find_one (colls db ''listing'') ''_id'' (VOid (ObjectId_of_str (co_listing_id payload))) = Some l"
      and "dict_get l ''status'' = Some s" "truthy s" "s \<noteq> VStr ''active''"
  shows "checkout R (Some db) payload = (Inl (HTTPException 400 ''Listing not available''), Some db)"
  using assms by (auto simp: checkout_def dict_get_def)

lemma checkout_sold_refused:
  assumes "ObjectId_is_valid (co_listing_id p)"
      and "listing_sold (VOid (ObjectId_of_str (co_listing_id p))) dbo"
  shows "checkout R dbo p = (Inl (HTTPException 400 ''Listing not available''), dbo)"
proof -
  from assms(2) obtain db l where d: "dbo = Some db"
    and f: "find_one (colls db ''listing'') ''_id'' (VOid (ObjectId_of_str (co_listing_id p))) = Some l"
    and s: "dict_get l ''status'' = Some (VStr ''sold'')"
    by (auto simp: listing_sold_def split: option.splits)
  show ?thesis unfolding d
    by (rule checkout_status_guard[OF assms(1) f s]) simp_all
qed

text \<open>
  Claim C3. Once a checkout on a listing has succeeded, every later checkout with the
  same \<^verbatim>\<open>listing_id\<close>, after any sequence \<open>rs\<close> of further requests handled one at a
  time, is refused with \<^verbatim>\<open>HTTPException(400, "Listing not available")\<close> and leaves the
  store as it found it: no further order is recorded.
\<close>

theorem checkout_twice:
  assumes "checkout R (Some db) p1 = (Inr resp, dbo1)"
      and "co_listing_id p2 = co_listing_id p1"
  shows "checkout R' (run R' dbo1 rs) p2
           = (Inl (HTTPException 400 ''Listing not available''), run R' dbo1 rs)"
proof -
  from checkout_success_sold[OF assms(1)] assms(2)
  have v: "ObjectId_is_valid (co_listing_id p2)"
    and s: "listing_sold (VOid (ObjectId_of_str (co_listing_id p2))) dbo1" by simp_all
  from sold_run[OF s] have "listing_sold (VOid (ObjectId_of_str (co_listing_id p2))) (run R' dbo1 rs)" .
  from checkout_sold_refused[OF v this] show ?thesis .
qed


theorem checkout_twice_witness:
  "checkout sample_runtime (Some (store_of [] [sample_listing (VStr ''active'')]))
       (sample_checkout ''standard'')
     = (Inr [(''status'', VStr ''order_confirmation''), (''order_id'', VStr ''000000000000000000000000'')],
        snd (checkout sample_runtime (Some (store_of [] [sample_listing (VStr ''active'')]))
               (sample_checkout ''standard''))) \<and>
   co_listing_id (sample_checkout ''express'') = co_listing_id (sample_checkout ''standard'') \<and>
   checkout sample_runtime
       (run sample_runtime
          (snd (checkout sample_runtime (Some (store_of [] [sample_listing (VStr ''active'')]))
                  (sample_checkout ''standard'')))
          [CreateOffer sample_offer])
       (sample_checkout ''express'')
     = (Inl (HTTPException 400 ''Listing not available''),
        run sample_runtime
          (snd (checkout sample_runtime (Some (store_of [] [sample_listing (VStr ''active'')]))
                  (sample_checkout ''standard'')))
          [CreateOffer sample_offer])"
proof -
  have h1: "checkout sample_runtime (Some (store_of [] [sample_listing (VStr ''active'')]))
       (sample_checkout ''standard'')
     = (Inr [(''status'', VStr ''order_confirmation''), (''order_id'', VStr ''000000000000000000000000'')],
        snd (checkout sample_runtime (Some (store_of [] [sample_listing (VStr ''active'')]))
               (sample_checkout ''standard'')))"
    by (simp add: prod_eq_iff checkout_def Order_def shipping_options_def sample_simps)
  have h2: "co_listing_id (sample_checkout ''express'') = co_listing_id (sample_checkout ''standard'')"
    by (simp add: sample_checkout_def)
  show ?thesis
    by (intro conjI h1 h2 checkout_twice[OF h1 h2])
qed

section \<open>Creating a listing\<close>

lemma slug_dump: "dict_get (Product_dump p) ''slug'' = Some (VStr (p_slug p))"
  by (simp add: Product_dump_def dict_get_def)

lemmas create_simps =
  create_listing_def Listing_def listing_types_def sample_create_def sample_product_def
  stored_product_def Product_dump_def Dimensions_dump_def opt_val_def hex_digits_1

text \<open>
  Claim C10. When the product's slug is the empty string, \<^verbatim>\<open>create_listing\<close> appends
  the dumped product to the product collection under a generated identifier, whatever
  the store already holds (a product with an empty slug included) and whether or not
  the listing is then accepted.
\<close>

theorem create_listing_empty_slug:
  assumes "p_slug (lc_product payload) = []"
  shows "\<exists>db'. snd (create_listing R (Some db) payload) = Some db' \<and>
           colls db' ''product'' =
             colls db ''product'' @ [(''_id'', VOid (fresh_oid db)) # Product_dump (lc_product payload)]"
  using assms
  by (auto simp: create_listing_def slug_dump create_document_def Let_def Listing_def
           split: sum.splits prod.splits)

theorem create_listing_empty_slug_witness:
  "p_slug (lc_product (sample_create '''' ''fixed_price'')) = [] \<and>
   dict_get (stored_product '''') ''slug'' = Some (VStr '''') \<and>
   (\<exists>db'. snd (create_listing sample_runtime (Some (store_of [stored_product ''''] []))
                (sample_create '''' ''fixed_price'')) = Some db' \<and>
           colls db' ''product'' =
             colls (store_of [stored_product ''''] []) ''product'' @
               [(''_id'', VOid (fresh_oid (store_of [stored_product ''''] [])))
                  # Product_dump (lc_product (sample_create '''' ''fixed_price''))])"
proof -
  have h: "p_slug (lc_product (sample_create '''' ''fixed_price'')) = []"
    by (simp add: sample_create_def sample_product_def)
  have s: "dict_get (stored_product '''') ''slug'' = Some (VStr '''')"
    by (simp add: stored_product_def dict_get_def Product_dump_def sample_product_def)
  show ?thesis
    by (intro conjI h s create_listing_empty_slug[OF h])
qed

text \<open>
  Claim C4, as amended. For a payload the \<^verbatim>\<open>Listing\<close> schema accepts (price at least
  0, listing type in its enum) whose product slug is not empty: when the first product
  with that slug carries an \<^verbatim>\<open>_id\<close> and no field named \<^verbatim>\<open>._id\<close>, no product is
  inserted and the new listing's \<^verbatim>\<open>product_id\<close> is the text of that \<^verbatim>\<open>_id\<close>; when no
  product has that slug, the dumped product is inserted under a generated identifier
  and the new listing's \<^verbatim>\<open>product_id\<close> is the text of that identifier.
\<close>

theorem create_listing_upsert:
  assumes "float_ge0 (lc_price payload)"
      and "lc_listing_type payload \<in> set listing_types"
      and "p_slug (lc_product payload) \<noteq> []"
  shows "(\<forall>e i. find_one (colls db ''product'') ''slug'' (VStr (p_slug (lc_product payload))) = Some e \<and>
            dict_get e ''._id'' = None \<and> dict_get e ''_id'' = Some i \<longrightarrow>
            (\<exists>resp db' listing.
               create_listing R (Some db) payload = (Inr resp, Some db') \<and>
               colls db' ''product'' = colls db ''product'' \<and>
               colls db' ''listing'' = colls db ''listing'' @ [listing] \<and>
               dict_get listing ''product_id'' = Some (VStr (py_str R i)) \<and>
               dict_get resp ''product_id'' = Some (VStr (py_str R i)))) \<and>
         (list_all (\<lambda>d. dict_get d ''slug'' \<noteq> Some (VStr (p_slug (lc_product payload))))
            (colls db ''product'') \<longrightarrow>
            (\<exists>resp db' listing.
               create_listing R (Some db) payload = (Inr resp, Some db') \<and>
               colls db' ''product'' =
                 colls db ''product'' @ [(''_id'', VOid (fresh_oid db)) # Product_dump (lc_product payload)] \<and>
               colls db' ''listing'' = colls db ''listing'' @ [listing] \<and>
               dict_get listing ''product_id'' = Some (VStr (str_oid (fresh_oid db))) \<and>
               dict_get resp ''product_id'' = Some (VStr (str_oid (fresh_oid db)))))"
proof (intro conjI allI impI)
  fix e i
  assume a: "find_one (colls db ''product'') ''slug'' (VStr (p_slug (lc_product payload))) = Some e \<and>
            dict_get e ''._id'' = None \<and> dict_get e ''_id'' = Some i"
  then have ne: "e \<noteq> []" by (auto simp: dict_get_def)
  show "\<exists>resp db' listing.
               create_listing R (Some db) payload = (Inr resp, Some db') \<and>
               colls db' ''product'' = colls db ''product'' \<and>
               colls db' ''listing'' = colls db ''listing'' @ [listing] \<and>
               dict_get listing ''product_id'' = Some (VStr (py_str R i)) \<and>
               dict_get resp ''product_id'' = Some (VStr (py_str R i))"
    using assms a ne
    by (simp add: create_listing_def slug_dump create_document_def Let_def Listing_def
          dict_get_def[of "_ # _"])
next
  assume "list_all (\<lambda>d. dict_get d ''slug'' \<noteq> Some (VStr (p_slug (lc_product payload))))
            (colls db ''product'')"
  then have n: "find_one (colls db ''product'') ''slug'' (VStr (p_slug (lc_product payload))) = None"
    by (simp add: find_one_None)
  show "\<exists>resp db' listing.
               create_listing R (Some db) payload = (Inr resp, Some db') \<and>
               colls db' ''product'' =
                 colls db ''product'' @ [(''_id'', VOid (fresh_oid db)) # Product_dump (lc_product payload)] \<and>
               colls db' ''listing'' = colls db ''listing'' @ [listing] \<and>
               dict_get listing ''product_id'' = Some (VStr (str_oid (fresh_oid db))) \<and>
               dict_get resp ''product_id'' = Some (VStr (str_oid (fresh_oid db)))"
    using assms n
    by (simp add: create_listing_def slug_dump create_document_def Let_def Listing_def
          dict_get_def[of "_ # _"])
qed

theorem create_listing_upsert_witness:
  "float_ge0 (lc_price (sample_create ''air-max-1'' ''fixed_price'')) \<and>
   lc_listing_type (sample_create ''air-max-1'' ''fixed_price'') \<in> set listing_types \<and>
   p_slug (lc_product (sample_create ''air-max-1'' ''fixed_price'')) \<noteq> [] \<and>
   find_one (colls (store_of [stored_product ''air-max-1''] []) ''product'') ''slug''
       (VStr (p_slug (lc_product (sample_create ''air-max-1'' ''fixed_price''))))
     = Some (stored_product ''air-max-1'') \<and>
   dict_get (stored_product ''air-max-1'') ''._id'' = None \<and>
   dict_get (stored_product ''air-max-1'') ''_id'' = Some (VOid (ObjectId ''64b7f0c2a1d3e4f5a6b7c8d8'')) \<and>
   (\<exists>resp db' listing.
      create_listing sample_runtime (Some (store_of [stored_product ''air-max-1''] []))
        (sample_create ''air-max-1'' ''fixed_price'') = (Inr resp, Some db') \<and>
      colls db' ''product'' = colls (store_of [stored_product ''air-max-1''] []) ''product'' \<and>
      colls db' ''listing'' = colls (store_of [stored_product ''air-max-1''] []) ''listing'' @ [listing] \<and>
      dict_get listing ''product_id''
        = Some (VStr (py_str sample_runtime (VOid (ObjectId ''64b7f0c2a1d3e4f5a6b7c8d8'')))) \<and>
      dict_get resp ''product_id''
        = Some (VStr (py_str sample_runtime (VOid (ObjectId ''64b7f0c2a1d3e4f5a6b7c8d8''))))) \<and>
   list_all (\<lambda>d. dict_get d ''slug'' \<noteq>
                Some (VStr (p_slug (lc_product (sample_create ''air-max-1'' ''fixed_price'')))))
     (colls (store_of [] []) ''product'') \<and>
   (\<exists>resp db' listing.
      create_listing sample_runtime (Some (store_of [] []))
        (sample_create ''air-max-1'' ''fixed_price'') = (Inr resp, Some db') \<and>
      colls db' ''product'' =
        colls (store_of [] []) ''product'' @
          [(''_id'', VOid (fresh_oid (store_of [] [])))
             # Product_dump (lc_product (sample_create ''air-max-1'' ''fixed_price''))] \<and>
      colls db' ''listing'' = colls (store_of [] []) ''listing'' @ [listing] \<and>
      dict_get listing ''product_id'' = Some (VStr (str_oid (fresh_oid (store_of [] [])))) \<and>
      dict_get resp ''product_id'' = Some (VStr (str_oid (fresh_oid (store_of [] [])))))"
proof -
  have h1: "float_ge0 (lc_price (sample_create ''air-max-1'' ''fixed_price''))"
    by (simp add: sample_create_def)
  have h2: "lc_listing_type (sample_create ''air-max-1'' ''fixed_price'') \<in> set listing_types"
    by (simp add: sample_create_def listing_types_def)
  have h3: "p_slug (lc_product (sample_create ''air-max-1'' ''fixed_price'')) \<noteq> []"
    by (simp add: sample_create_def sample_product_def)
  have f: "find_one (colls (store_of [stored_product ''air-max-1''] []) ''product'') ''slug''
       (VStr (p_slug (lc_product (sample_create ''air-max-1'' ''fixed_price''))))
     = Some (stored_product ''air-max-1'')"
    by (simp add: create_simps sample_simps)
  have g1: "dict_get (stored_product ''air-max-1'') ''._id'' = None"
    by (simp add: create_simps sample_simps)
  have g2: "dict_get (stored_product ''air-max-1'') ''_id'' = Some (VOid (ObjectId ''64b7f0c2a1d3e4f5a6b7c8d8''))"
    by (simp add: create_simps sample_simps)
  have n: "list_all (\<lambda>d. dict_get d ''slug'' \<noteq>
                Some (VStr (p_slug (lc_product (sample_create ''air-max-1'' ''fixed_price'')))))
     (colls (store_of [] []) ''product'')"
    by (simp add: store_of_def)
  note reuse = create_listing_upsert[OF h1 h2 h3, where db = "store_of [stored_product ''air-max-1''] []"
      and R = sample_runtime, THEN conjunct1, THEN spec, THEN spec, THEN mp, OF conjI[OF f conjI[OF g1 g2]]]
  note fresh = create_listing_upsert[OF h1 h2 h3, where db = "store_of [] []"
      and R = sample_runtime, THEN conjunct2, THEN mp, OF n]
  show ?thesis
    by (intro conjI h1 h2 h3 f g1 g2 n reuse fresh)
qed

text \<open>
  The claim as written fails on the empty slug: a product with the empty slug is
  stored, the payload (which the schema accepts) names the empty slug, and a second
  product is inserted all the same.
\<close>

theorem create_listing_empty_slug_counterexample:
  "float_ge0 (lc_price (sample_create '''' ''fixed_price'')) \<and>
   lc_listing_type (sample_create '''' ''fixed_price'') \<in> set listing_types \<and>
   find_one (colls (store_of [stored_product ''''] []) ''product'') ''slug''
      (VStr (p_slug (lc_product (sample_create '''' ''fixed_price''))))
     = Some (stored_product '''') \<and>
   length (colls (store_of [stored_product ''''] []) ''product'') = 1 \<and>
   (case snd (create_listing sample_runtime (Some (store_of [stored_product ''''] []))
               (sample_create '''' ''fixed_price'')) of
      None \<Rightarrow> 0 | Some db' \<Rightarrow> length (colls db' ''product'')) = 2"
  by (simp add: create_simps sample_simps)

section \<open>Validation and persistence\<close>

text \<open>
  Claim C6 does not hold of \<^verbatim>\<open>create_listing\<close>. The request model takes
  \<^verbatim>\<open>listing_type\<close> as a plain \<^verbatim>\<open>str\<close>, so a value outside the enum reaches the handler,
  which stores the product first and only then builds the \<^verbatim>\<open>Listing\<close>: the validation
  error comes after a product document has been persisted. On an empty store, the
  request below ends in a validation error with one product stored and no listing.
\<close>

theorem create_listing_bad_type:
  "create_listing sample_runtime (Some (store_of [] [])) (sample_create ''air-max-1'' ''bogus'')
     = (Inl ValidationError,
        Some ((store_of [] [])
          \<lparr>colls := (colls (store_of [] []))
             (''product'' := [(''_id'', VOid (ObjectId ''000000000000000000000000''))
                               # Product_dump (sample_product ''air-max-1'')]),
           next_oid := 1\<rparr>))"
  by (simp add: create_simps sample_simps)

section \<open>Serialised documents\<close>









section \<open>The brand filter\<close>

lemma compile_literals:
  "list_all (\<lambda>c. c \<notin> set regex_meta) b \<Longrightarrow> compile_atoms b = Some (map Lit b)"
  by (induction b) (auto simp: regex_meta_def)

lemma compile_anchored:
  assumes "list_all (\<lambda>c. c \<notin> set regex_meta) b"
  shows "regex_compile (''^'' @ b @ ''$'') = Some (True, map Lit b, True)"
  using compile_literals[OF assms] by (simp add: regex_compile_def)

lemma lower_line_feed: "ascii_lower c = line_feed \<longleftrightarrow> c = line_feed"
  by (auto simp: ascii_lower_def line_feed_def split: option.splits if_splits)

lemma match_literals:
  "match_here True (map Lit b) True s \<longleftrightarrow>
     (map ascii_lower s = map ascii_lower b \<or> map ascii_lower s = map ascii_lower b @ [line_feed])"
proof (induction b arbitrary: s)
  case Nil
  show ?case by (cases s) (auto simp: lower_line_feed)
next
  case (Cons x xs)
  show ?case
  proof (cases s)
    case Nil
    then show ?thesis by simp
  next
    case (Cons c cs)
    with Cons.IH[of cs] show ?thesis
      by (auto simp: atom_matches_def)
  qed
qed

lemma split_dots_brand: "split_dots ''brand'' = [''brand'']"
  by simp

lemma brand_query:
  "b \<noteq> [] \<Longrightarrow> pq_q pq = None \<Longrightarrow> pq_brand pq = Some b \<Longrightarrow> pq_condition pq = None \<Longrightarrow>
   pq_size pq = None \<Longrightarrow>
   products_filter pq = [Field ''brand'' (Regex (''^'' @ b @ ''$'') ''i'')]"
  by (simp add: products_filter_def when_given_def)

lemmas query_simps =
  list_products_def products_filter_def when_given_def query_supported_def cond_supported_def
  regex_compile_def regex_meta_def doc_matches_def clause_matches_def field_matches_def
  cond_hit_def regex_test_def regex_search_def atom_matches_def ascii_lower_def line_feed_def
  sample_query_def

text \<open>
  What the anchors \<^verbatim>\<open>^\<close> and \<^verbatim>\<open>$\<close> put around the brand achieve when the brand has no
  character the pattern language reads specially: a product whose brand is a string
  is selected when that string is the given brand up to the case of ASCII letters
  (the \<^verbatim>\<open>$\<close> of the pattern language also stands before one final line feed).
\<close>

lemma brand_filter_literal:
  assumes "brand \<noteq> []"
      and "list_all (\<lambda>c. c \<notin> set regex_meta) brand"
      and "pq_q pq = None" "pq_brand pq = Some brand" "pq_condition pq = None" "pq_size pq = None"
      and "dict_get d ''brand'' = Some (VStr s)"
  shows "query_supported (products_filter pq) \<and>
         (doc_matches (products_filter pq) d \<longleftrightarrow>
            (map ascii_lower s = map ascii_lower brand \<or>
             map ascii_lower s = map ascii_lower brand @ [line_feed]))"
proof -
  have q: "products_filter pq = [Field ''brand'' (Regex (''^'' @ brand @ ''$'') ''i'')]"
    using assms by (simp add: brand_query)
  have c: "regex_compile (''^'' @ brand @ ''$'') = Some (True, map Lit brand, True)"
    by (rule compile_anchored[OF assms(2)])
  have m: "doc_matches (products_filter pq) d \<longleftrightarrow> match_here True (map Lit brand) True s"
    unfolding q using assms(7) c
    by (simp add: doc_matches_def clause_matches_def field_matches_def split_dots_brand
        cond_hit_def regex_test_def regex_search_def dict_get_def)
  show ?thesis
    unfolding m match_literals using c by (simp add: q query_supported_def cond_supported_def)
qed

text \<open>
  Claim C7 does not hold of \<^verbatim>\<open>list_products\<close>. The handler puts the brand between
  \<^verbatim>\<open>^\<close> and \<^verbatim>\<open>$\<close> as it is, without escaping it, so a character of the brand that the
  pattern language reads specially is read that way. On a store whose one product has
  brand \<^verbatim>\<open>Nike\<close>, the request with brand \<^verbatim>\<open>Ni.e\<close> counts one product and returns it,
  though \<^verbatim>\<open>Nike\<close> and \<^verbatim>\<open>Ni.e\<close> differ also when the case of letters is ignored.
\<close>

theorem list_products_brand_pattern:
  "dict_get (stored_product ''air-max-1'') ''brand'' = Some (VStr ''Nike'') \<and>
   map ascii_lower ''Nike'' \<noteq> map ascii_lower ''Ni.e'' \<and>
   map_option (map_sum id pp_total)
     (list_products sample_runtime (Some (store_of [stored_product ''air-max-1''] []))
        (sample_query (Some ''Ni.e''))) = Some (Inr 1) \<and>
   map_option (map_sum id (\<lambda>p. map (\<lambda>d. (dict_get d ''slug'', dict_get d ''brand'')) (pp_items p)))
     (list_products sample_runtime (Some (store_of [stored_product ''air-max-1''] []))
        (sample_query (Some ''Ni.e'')))
     = Some (Inr [(Some (VStr ''air-max-1''), Some (VStr ''Nike''))])"
  by (simp add: query_simps create_simps sample_simps sample_runtime_def serialize_doc_def
      serialize_field_def stringify_oid_def dict_del_def dict_set_def)

end
